theory Spec2Isabelle
  imports Complex_Main
begin

section \<open>The unit cell of udkm1Dsimpy (unitCell.py)\<close>

text \<open>
  A shallow embedding of the class \<^verbatim>\<open>unitCell\<close>. Conventions of the model:
  \<^item> Python numbers (\<^verbatim>\<open>int\<close> and \<^verbatim>\<open>float\<close>) are real numbers: the rounding of IEEE
    arithmetic, infinities and NaN are left out. What the program itself does to a number
    (printing it with a fixed number of digits, storing it in an integer array) is modelled.
  \<^item> Every \<^verbatim>\<open>raise\<close> is a value of \<open>error\<close>; a function that may raise returns
    \<open>error + 'a\<close>. The object as a raise leaves it half-updated is not modelled.
  \<^item> What \<^verbatim>\<open>print\<close> writes is returned as a list of lines.
\<close>

subsection \<open>Errors and values\<close>

datatype error =
    UnsupportedInputError
      \<comment> \<open>\<^verbatim>\<open>ValueError('Please use string representation of function!')\<close>\<close>
  | InvalidInputError
      \<comment> \<open>\<^verbatim>\<open>ValueError('Unit cell property input has to be ...')\<close>,
          \<^verbatim>\<open>ValueError('Atom position input has to be ...')\<close>\<close>
  | SubsystemCountMismatchError
      \<comment> \<open>\<^verbatim>\<open>ValueError('Heat capacity, ... have not the same number of elements!')\<close>\<close>
  | ZeroDivisionError
  | IndexError
  | KeyError
  | OverflowError
  | EvalError string
      \<comment> \<open>an exception of \<^verbatim>\<open>eval\<close> outside any \<^verbatim>\<open>try\<close>, with its message\<close>

text \<open>
  The objects \<^verbatim>\<open>eval\<close> can return and a position can hold. A function of one number is a
  HOL function.
\<close>

datatype pyval =
    PyLambda "real \<Rightarrow> real"
  | PyStr string
  | PyNum real
  | PyNone

text \<open>
  One element of a property input, by the tests the code makes on it, in the code's order:
  \<^verbatim>\<open>isfunction(x)\<close>, \<^verbatim>\<open>isinstance(x, str)\<close>, \<^verbatim>\<open>isinstance(x, (int, float))\<close>, anything else.
  An input is a list of elements or a single element (\<^verbatim>\<open>isinstance(inputs, list)\<close>).
\<close>

datatype element = Function | Str string | Num real | Other

datatype inputs = Single element | ListOf "element list"

subsection \<open>Number formatting: \<^verbatim>\<open>'{:f}'.format\<close> and \<^verbatim>\<open>'{:e}'.format\<close>\<close>

definition digit_char :: "nat \<Rightarrow> char" where
  "digit_char d = ''0123456789'' ! d"

text \<open>\<^verbatim>\<open>str(n)\<close> of a natural number.\<close>

function str_nat :: "nat \<Rightarrow> string" where
  "str_nat n =
     (if n < 10 then [digit_char n] else str_nat (n div 10) @ [digit_char (n mod 10)])"
  by pat_completeness auto
termination
  by (relation "measure (\<lambda>n. n)") auto

declare str_nat.simps [simp del]

definition zfill :: "nat \<Rightarrow> string \<Rightarrow> string" where
  "zfill k s = replicate (k - length s) (CHR ''0'') @ s"

text \<open>
  Python prints the decimal nearest to the number, a tie going to the even digit.
\<close>

definition round_half_even :: "real \<Rightarrow> int" where
  "round_half_even x =
     (if x - of_int \<lfloor>x\<rfloor> < 1 / 2 then \<lfloor>x\<rfloor>
      else if 1 / 2 < x - of_int \<lfloor>x\<rfloor> then \<lfloor>x\<rfloor> + 1
      else if even \<lfloor>x\<rfloor> then \<lfloor>x\<rfloor> else \<lfloor>x\<rfloor> + 1)"

definition sign_str :: "real \<Rightarrow> string" where
  "sign_str v = (if v < 0 then ''-'' else [])"

text \<open>The digits of \<open>m\<close> millionths: the integer part, a point, six decimals.\<close>

definition fixed6 :: "nat \<Rightarrow> string" where
  "fixed6 m = str_nat (m div 1000000) @ ''.'' @ zfill 6 (str_nat (m mod 1000000))"

text \<open>\<^verbatim>\<open>'{:f}'.format(v)\<close>: six decimals.\<close>

definition format_f :: "real \<Rightarrow> string" where
  "format_f v = sign_str v @ fixed6 (nat (round_half_even (\<bar>v\<bar> * 1000000)))"

text \<open>
  The decimal exponent of a positive number: how often it is divided by ten to come below
  ten, or multiplied by ten to reach one.
\<close>

function exp_up :: "real \<Rightarrow> nat" where
  "exp_up x = (if 10 \<le> x then Suc (exp_up (x / 10)) else 0)"
  by pat_completeness auto
termination
proof (relation "measure (\<lambda>x. nat \<lfloor>x\<rfloor>)")
  show "wf (measure (\<lambda>x::real. nat \<lfloor>x\<rfloor>))"
    by simp
next
  fix x :: real
  assume x: "10 \<le> x"
  then have "x / 10 \<le> x - 9"
    by simp
  then have "\<lfloor>x / 10\<rfloor> \<le> \<lfloor>x - 9\<rfloor>"
    by (rule floor_mono)
  also have "\<lfloor>x - 9\<rfloor> = \<lfloor>x\<rfloor> - 9"
    by simp
  finally have "\<lfloor>x / 10\<rfloor> < \<lfloor>x\<rfloor>"
    by simp
  moreover have "0 < \<lfloor>x\<rfloor>"
    using x by simp
  ultimately show "(x / 10, x) \<in> measure (\<lambda>x. nat \<lfloor>x\<rfloor>)"
    by simp
qed

declare exp_up.simps [simp del]

function exp_down :: "real \<Rightarrow> nat" where
  "exp_down x = (if 0 < x \<and> x < 1 then Suc (exp_down (x * 10)) else 0)"
  by pat_completeness auto
termination
proof (relation "measure (\<lambda>x. nat \<lceil>1 / x\<rceil>)")
  show "wf (measure (\<lambda>x::real. nat \<lceil>1 / x\<rceil>))"
    by simp
next
  fix x :: real
  assume "0 < x \<and> x < 1"
  then have x: "0 < x" "x < 1"
    by simp_all
  define y where "y = 1 / x"
  have y: "1 < y"
    using x by (simp add: y_def)
  have eq: "1 / (x * 10) = y / 10"
    by (simp add: y_def)
  have lt: "\<lceil>y / 10\<rceil> < \<lceil>y\<rceil>"
  proof (cases "y \<le> 10")
    case True
    then have "y / 10 \<le> real_of_int 1"
      by simp
    then have "\<lceil>y / 10\<rceil> \<le> 1"
      by (rule ceiling_le)
    moreover have "real_of_int 1 < y"
      using y by simp
    then have "1 < \<lceil>y\<rceil>"
      by (simp only: less_ceiling_iff)
    ultimately show ?thesis
      by linarith
  next
    case False
    then have "y / 10 \<le> y - 9"
      by simp
    then have "\<lceil>y / 10\<rceil> \<le> \<lceil>y - 9\<rceil>"
      by (rule ceiling_mono)
    also have "\<lceil>y - 9\<rceil> = \<lceil>y\<rceil> - 9"
      by simp
    finally show ?thesis
      by simp
  qed
  have "real_of_int 0 < y"
    using y by simp
  then have pos: "0 < \<lceil>y\<rceil>"
    by (simp only: less_ceiling_iff)
  have "nat \<lceil>y / 10\<rceil> < nat \<lceil>y\<rceil>"
    using lt pos by linarith
  then show "(x * 10, x) \<in> measure (\<lambda>x. nat \<lceil>1 / x\<rceil>)"
    unfolding in_measure eq y_def .
qed

declare exp_down.simps [simp del]

text \<open>
  \<^verbatim>\<open>'{:e}'.format(v)\<close>: one digit, a point, six decimals, and an exponent of at least two
  digits. \<open>scaled x e\<close> is \<open>x\<close> in units of \<open>10\<^sup>e\<^sup>-\<^sup>6\<close>; a mantissa that rounds up to ten
  moves to the next exponent.
\<close>

definition decimal_exponent :: "real \<Rightarrow> int" where
  "decimal_exponent x = (if 1 \<le> x then int (exp_up x) else - int (exp_down x))"

definition scaled :: "real \<Rightarrow> int \<Rightarrow> real" where
  "scaled x e = (if e \<le> 6 then x * 10 ^ nat (6 - e) else x / 10 ^ nat (e - 6))"

definition exponent_str :: "int \<Rightarrow> string" where
  "exponent_str e = ''e'' @ (if e < 0 then ''-'' else ''+'') @ zfill 2 (str_nat (nat \<bar>e\<bar>))"

definition format_e :: "real \<Rightarrow> string" where
  "format_e v =
     (if v = 0 then ''0.000000e+00''
      else if round_half_even (scaled \<bar>v\<bar> (decimal_exponent \<bar>v\<bar>)) = 10000000
      then sign_str v @ fixed6 1000000 @ exponent_str (decimal_exponent \<bar>v\<bar> + 1)
      else sign_str v @ fixed6 (nat (round_half_even (scaled \<bar>v\<bar> (decimal_exponent \<bar>v\<bar>))))
             @ exponent_str (decimal_exponent \<bar>v\<bar>))"

text \<open>
  The numbers the two printed forms denote: \<open>v\<close> rounded to six decimals, and \<open>v\<close>
  rounded to seven significant digits. \<open>pow10 e\<close> is \<open>10\<^sup>e\<close> for an integer \<open>e\<close>.
\<close>

definition value_f :: "real \<Rightarrow> real" where
  "value_f v =
     (if v < 0 then - 1 else 1) * real_of_int (round_half_even (\<bar>v\<bar> * 1000000)) / 1000000"

definition pow10 :: "int \<Rightarrow> real" where
  "pow10 e = (if e < 0 then 1 / 10 ^ nat (- e) else 10 ^ nat e)"

definition value_e :: "real \<Rightarrow> real" where
  "value_e v =
     (if v = 0 then 0
      else (if v < 0 then - 1 else 1)
        * real_of_int (round_half_even (scaled \<bar>v\<bar> (decimal_exponent \<bar>v\<bar>))) / 1000000
        * pow10 (decimal_exponent \<bar>v\<bar>))"

subsection \<open>\<^verbatim>\<open>eval\<close>\<close>

text \<open>
  The code evaluates two kinds of text with Python's \<^verbatim>\<open>eval\<close>: text it has just built
  from a number, and text the caller wrote. The first kind has two shapes,
  \<^verbatim>\<open>lambda T: 1.500000\<close> and \<^verbatim>\<open>lambda strain: 5.000000e-01*(strain+1)\<close>, and the model
  evaluates them: it reads the decimal literal and returns the function. For any other
  text the model takes Python's evaluator as a parameter \<open>user\<close>, which returns the message
  of the exception raised or the object. The parameter is a function of the text alone: an
  expression that changes the variables of the method evaluating it is outside the model.
\<close>

definition is_digit :: "char \<Rightarrow> bool" where
  "is_digit c = (c \<in> set ''0123456789'')"

definition digit_val :: "char \<Rightarrow> nat" where
  "digit_val c = length (takeWhile (\<lambda>d. d \<noteq> c) ''0123456789'')"

definition digits_val :: "string \<Rightarrow> nat" where
  "digits_val s = foldl (\<lambda>a c. 10 * a + digit_val c) 0 s"

text \<open>An optional exponent \<^verbatim>\<open>e+dd\<close> or \<^verbatim>\<open>e-dd\<close>: the factor it stands for, and the rest.\<close>

fun parse_exponent :: "string \<Rightarrow> real \<times> string" where
  "parse_exponent (e # sg # s) =
     (if e = CHR ''e'' \<and> (sg = CHR ''+'' \<or> sg = CHR ''-'') \<and> takeWhile is_digit s \<noteq> []
      then (if sg = CHR ''-'' then 1 / 10 ^ digits_val (takeWhile is_digit s)
            else 10 ^ digits_val (takeWhile is_digit s),
            dropWhile is_digit s)
      else (1, e # sg # s))"
| "parse_exponent s = (1, s)"

text \<open>Digits, a point, digits and an optional exponent: the value and the rest.\<close>

definition parse_unsigned :: "string \<Rightarrow> (real \<times> string) option" where
  "parse_unsigned s =
     (if takeWhile is_digit s = [] then None
      else case dropWhile is_digit s of
        [] \<Rightarrow> None
      | p # r \<Rightarrow>
          if p = CHR ''.'' \<and> takeWhile is_digit r \<noteq> []
          then Some
            ((real (digits_val (takeWhile is_digit s))
               + real (digits_val (takeWhile is_digit r)) / 10 ^ length (takeWhile is_digit r))
               * fst (parse_exponent (dropWhile is_digit r)),
             snd (parse_exponent (dropWhile is_digit r)))
          else None)"

definition parse_float :: "string \<Rightarrow> (real \<times> string) option" where
  "parse_float s =
     (case s of
        [] \<Rightarrow> None
      | c # r \<Rightarrow>
          if c = CHR ''-''
          then map_option (\<lambda>(x, t). (- x, t)) (parse_unsigned r)
          else parse_unsigned s)"

definition eval_generated :: "string \<Rightarrow> (real \<Rightarrow> real) option" where
  "eval_generated s =
     (if take 10 s = ''lambda T: '' then
        (case parse_float (drop 10 s) of
           None \<Rightarrow> None
         | Some (c, r) \<Rightarrow> if r = [] then Some (\<lambda>T. c) else None)
      else if take 15 s = ''lambda strain: '' then
        (case parse_float (drop 15 s) of
           None \<Rightarrow> None
         | Some (c, r) \<Rightarrow>
             if r = ''*(strain+1)'' then Some (\<lambda>strain. c * (strain + 1)) else None)
      else None)"

definition py_eval :: "(string \<Rightarrow> string + pyval) \<Rightarrow> string \<Rightarrow> string + pyval" where
  "py_eval user s =
     (case eval_generated s of Some f \<Rightarrow> Inr (PyLambda f) | None \<Rightarrow> user s)"

subsection \<open>\<^verbatim>\<open>checkCellArrayInput\<close>\<close>

text \<open>
  The two lines the \<^verbatim>\<open>except\<close> branch prints. The text literal is continued over a line
  break with a backslash, so the indentation of the second line is part of it.
\<close>

definition not_converted :: "string \<Rightarrow> nat \<Rightarrow> string \<Rightarrow> string list" where
  "not_converted s indent msg =
     [''String input for unit cell property '' @ s @ '' '' @ replicate indent (CHR '' '')
        @ ''cannot be converted to function handle!'',
      msg]"

text \<open>
  The loop over the elements, with the lists \<^verbatim>\<open>output\<close> and \<^verbatim>\<open>outputStrs\<close> and the printed
  lines as accumulators. A function is refused, a text is evaluated inside \<^verbatim>\<open>try\<close> (on an
  exception two lines are printed and nothing is appended), a number is printed with
  \<^verbatim>\<open>{:f}\<close> into \<^verbatim>\<open>'lambda T: ...'\<close> and that text is evaluated outside any \<^verbatim>\<open>try\<close>, and
  anything else is refused.
\<close>

fun resolve_elements ::
  "(string \<Rightarrow> string + pyval) \<Rightarrow> element list \<Rightarrow> pyval list \<times> string list \<times> string list
     \<Rightarrow> error + pyval list \<times> string list \<times> string list" where
  "resolve_elements user [] acc = Inr acc"
| "resolve_elements user (Function # xs) acc = Inl UnsupportedInputError"
| "resolve_elements user (Str s # xs) (output, outputStrs, printed) =
     (case py_eval user s of
        Inr f \<Rightarrow> resolve_elements user xs (output @ [f], outputStrs @ [s], printed)
      | Inl msg \<Rightarrow>
          resolve_elements user xs (output, outputStrs, printed @ not_converted s 24 msg))"
| "resolve_elements user (Num v # xs) (output, outputStrs, printed) =
     (case py_eval user (''lambda T: '' @ format_f v) of
        Inr f \<Rightarrow>
          resolve_elements user xs
            (output @ [f], outputStrs @ [''lambda T: '' @ format_f v], printed)
      | Inl msg \<Rightarrow> Inl (EvalError msg))"
| "resolve_elements user (Other # xs) acc = Inl InvalidInputError"

definition checkCellArrayInput ::
  "(string \<Rightarrow> string + pyval) \<Rightarrow> inputs
     \<Rightarrow> error + pyval list \<times> string list \<times> string list" where
  "checkCellArrayInput user inp =
     resolve_elements user (case inp of ListOf xs \<Rightarrow> xs | Single x \<Rightarrow> [x]) ([], [], [])"

text \<open>
  A list of objects and a list of texts are aligned when they have the same length and,
  place by place, the object is what evaluating the text gives.
\<close>

definition aligned :: "(string \<Rightarrow> string + pyval) \<Rightarrow> pyval list \<Rightarrow> string list \<Rightarrow> bool" where
  "aligned user fs strs = list_all2 (\<lambda>f s. py_eval user s = Inr f) fs strs"







subsection \<open>numpy arrays\<close>

text \<open>
  A one-dimensional numpy array is its element type and its elements. \<^verbatim>\<open>np.array([0])\<close> is
  an array of 64-bit integers. Storing a number into an integer array converts it as C
  does, dropping the fraction (numpy user guide, "Assigning values to indexed arrays");
  a number outside the 64-bit range raises \<^verbatim>\<open>OverflowError\<close>. Joining an integer array
  with a float array (\<^verbatim>\<open>np.hstack\<close>) gives a float array.
\<close>

datatype dtype = Int64 | Float64

record ndarray =
  dtype :: dtype
  vals :: "real list"

definition trunc_to_int :: "real \<Rightarrow> int" where
  "trunc_to_int x = (if 0 \<le> x then \<lfloor>x\<rfloor> else \<lceil>x\<rceil>)"

text \<open>\<^verbatim>\<open>a[0] = x\<close>\<close>

definition setitem0 :: "ndarray \<Rightarrow> real \<Rightarrow> error + ndarray" where
  "setitem0 a x =
     (if vals a = [] then Inl IndexError
      else case dtype a of
        Float64 \<Rightarrow> Inr (a\<lparr>vals := (vals a)[0 := x]\<rparr>)
      | Int64 \<Rightarrow>
          if - (2 ^ 63) \<le> trunc_to_int x \<and> trunc_to_int x < 2 ^ 63
          then Inr (a\<lparr>vals := (vals a)[0 := of_int (trunc_to_int x)]\<rparr>)
          else Inl OverflowError)"

subsection \<open>The object\<close>

text \<open>
  An atom is an object of another module; the class reads its \<^verbatim>\<open>ID\<close>, \<^verbatim>\<open>name\<close> and
  \<^verbatim>\<open>mass\<close>.
\<close>

record atom =
  atom_ID :: string
  atom_name :: string
  atom_mass :: real

datatype scalar_or_array = Scalar real | Array "real list"

text \<open>
  The attributes of a \<^verbatim>\<open>unitCell\<close>, under their names. \<open>soundVel\<close> is the attribute
  \<^verbatim>\<open>_soundVel\<close> behind the property. The two attributes \<^verbatim>\<open>_intHeatCapacity\<close> and
  \<^verbatim>\<open>_intLinThermExp\<close> and their strings exist only once they have been assigned
  (\<^verbatim>\<open>hasattr\<close>), so they are options; they hold a reference to a list object in the store
  below, because a claim is about the identity of that object.
\<close>

record unitCell =
  ID :: string
  name :: string
  cAxis :: real
  aAxis :: real
  bAxis :: real
  atoms :: "(atom \<times> pyval \<times> string) list"
  numAtoms :: nat
  mass :: real
  density :: real
  springConst :: ndarray
  debWalFac :: real
  soundVel :: real
  phononDamping :: real
  optPenDepth :: real
  optRefIndex :: scalar_or_array
  optRefIndexPerStrain :: scalar_or_array
  heatCapacity :: "pyval list"
  heatCapacityStr :: "string list"
  thermCond :: "pyval list"
  thermCondStr :: "string list"
  linThermExp :: "pyval list"
  linThermExpStr :: "string list"
  subSystemCoupling :: "pyval list"
  subSystemCouplingStr :: "string list"
  numSubSystems :: nat
  area :: real
  volume :: real
  intHeatCapacity_attr :: "nat option"
  intHeatCapacityStr :: "string list option"
  intLinThermExp_attr :: "nat option"
  intLinThermExpStr :: "string list option"

text \<open>The keyword arguments of the constructor; \<open>None\<close> is a keyword not given.\<close>

record kwargs =
  kw_aAxis :: "real option"
  kw_bAxis :: "real option"
  kw_debWalFac :: "real option"
  kw_soundVel :: "real option"
  kw_phononDamping :: "real option"
  kw_optPenDepth :: "real option"
  kw_optRefIndex :: "scalar_or_array option"
  kw_optRefIndexPerStrain :: "scalar_or_array option"
  kw_heatCapacity :: "inputs option"
  kw_thermCond :: "inputs option"
  kw_linThermExp :: "inputs option"
  kw_subSystemCoupling :: "inputs option"

text \<open>The call without keyword arguments.\<close>

definition no_kwargs :: kwargs where
  "no_kwargs =
     \<lparr>kw_aAxis = None, kw_bAxis = None, kw_debWalFac = None, kw_soundVel = None,
      kw_phononDamping = None, kw_optPenDepth = None, kw_optRefIndex = None,
      kw_optRefIndexPerStrain = None, kw_heatCapacity = None, kw_thermCond = None,
      kw_linThermExp = None, kw_subSystemCoupling = None\<rparr>"

text \<open>\<^verbatim>\<open>kwargs.get(key, default)\<close>\<close>

definition get_kw :: "'a option \<Rightarrow> 'a \<Rightarrow> 'a" where
  "get_kw given dflt = (case given of None \<Rightarrow> dflt | Some v \<Rightarrow> v)"

subsection \<open>\<^verbatim>\<open>calcSpringConst\<close> and the \<^verbatim>\<open>soundVel\<close> setter\<close>

text \<open>
  \<^verbatim>\<open>self.springConst[0] = self.mass * (self.soundVel/self.cAxis)**2\<close>: the division raises
  on a zero \<^verbatim>\<open>cAxis\<close>, and the product is stored into the array.
\<close>

definition calcSpringConst :: "unitCell \<Rightarrow> error + unitCell" where
  "calcSpringConst uc =
     (if cAxis uc = 0 then Inl ZeroDivisionError
      else case setitem0 (springConst uc) (mass uc * (soundVel uc / cAxis uc) ^ 2) of
        Inl e \<Rightarrow> Inl e
      | Inr a \<Rightarrow> Inr (uc\<lparr>springConst := a\<rparr>))"

definition set_soundVel :: "unitCell \<Rightarrow> real \<Rightarrow> error + unitCell" where
  "set_soundVel uc v = calcSpringConst (uc\<lparr>soundVel := v\<rparr>)"

subsection \<open>The constructor\<close>

text \<open>
  The object when \<^verbatim>\<open>__init__\<close> reaches the assignment of \<^verbatim>\<open>soundVel\<close>. The attributes
  assigned after it hold placeholders here and get their values in \<open>init\<close>; the setter
  reads none of them.
\<close>

definition init_fields :: "string \<Rightarrow> string \<Rightarrow> real \<Rightarrow> kwargs \<Rightarrow> unitCell" where
  "init_fields ID' name' cAxis' kw =
     \<lparr>ID = ID', name = name', cAxis = cAxis',
      aAxis = get_kw (kw_aAxis kw) cAxis',
      bAxis = get_kw (kw_bAxis kw) (get_kw (kw_aAxis kw) cAxis'),
      atoms = [], numAtoms = 0, mass = 0, density = 0,
      springConst = \<lparr>dtype = Int64, vals = [0]\<rparr>,
      debWalFac = get_kw (kw_debWalFac kw) 0,
      soundVel = 0,
      phononDamping = get_kw (kw_phononDamping kw) 0,
      optPenDepth = get_kw (kw_optPenDepth kw) 0,
      optRefIndex = get_kw (kw_optRefIndex kw) (Scalar 0),
      optRefIndexPerStrain = get_kw (kw_optRefIndexPerStrain kw) (Scalar 0),
      heatCapacity = [], heatCapacityStr = [],
      thermCond = [], thermCondStr = [],
      linThermExp = [], linThermExpStr = [],
      subSystemCoupling = [], subSystemCouplingStr = [],
      numSubSystems = 0, area = 0, volume = 0,
      intHeatCapacity_attr = None, intHeatCapacityStr = None,
      intLinThermExp_attr = None, intLinThermExpStr = None\<rparr>"

text \<open>
  \<^verbatim>\<open>__init__\<close>: the \<^verbatim>\<open>soundVel\<close> setter runs first, then the four inputs are resolved in
  the order of the code, then the lengths are compared, then area and volume are
  computed. The result is the object and the lines printed.
\<close>

definition init ::
  "(string \<Rightarrow> string + pyval) \<Rightarrow> string \<Rightarrow> string \<Rightarrow> real \<Rightarrow> kwargs
     \<Rightarrow> error + unitCell \<times> string list" where
  "init user ID' name' cAxis' kw =
     (case set_soundVel (init_fields ID' name' cAxis' kw) (get_kw (kw_soundVel kw) 0) of
        Inl e \<Rightarrow> Inl e
      | Inr uc \<Rightarrow>
     (case checkCellArrayInput user (get_kw (kw_heatCapacity kw) (Single (Num 0))) of
        Inl e \<Rightarrow> Inl e
      | Inr (hc, hcs, p1) \<Rightarrow>
     (case checkCellArrayInput user (get_kw (kw_thermCond kw) (Single (Num 0))) of
        Inl e \<Rightarrow> Inl e
      | Inr (tc, tcs, p2) \<Rightarrow>
     (case checkCellArrayInput user (get_kw (kw_linThermExp kw) (Single (Num 0))) of
        Inl e \<Rightarrow> Inl e
      | Inr (lte, ltes, p3) \<Rightarrow>
     (case checkCellArrayInput user (get_kw (kw_subSystemCoupling kw) (Single (Num 0))) of
        Inl e \<Rightarrow> Inl e
      | Inr (ssc, sscs, p4) \<Rightarrow>
          if length hc = length tc \<and> length hc = length lte \<and> length hc = length ssc
          then Inr
            (uc\<lparr>heatCapacity := hc, heatCapacityStr := hcs,
                thermCond := tc, thermCondStr := tcs,
                linThermExp := lte, linThermExpStr := ltes,
                subSystemCoupling := ssc, subSystemCouplingStr := sscs,
                numSubSystems := length hc,
                area := aAxis uc * bAxis uc,
                volume := aAxis uc * bAxis uc * cAxis uc\<rparr>,
             p1 @ p2 @ p3 @ p4)
          else Inl SubsystemCountMismatchError)))))"

subsection \<open>\<^verbatim>\<open>addAtom\<close>\<close>

text \<open>\<^verbatim>\<open>u.angstrom\<close> of numericalunits after \<^verbatim>\<open>u.reset_units('SI')\<close>.\<close>

definition angstrom :: real where
  "angstrom = 1 / 10 ^ 10"

text \<open>
  The tests on the position, in the code's order; the result is the position, its string
  and the lines printed. A text is assigned to \<^verbatim>\<open>positionStr\<close> before it is evaluated, so
  when \<^verbatim>\<open>eval\<close> raises the position stays the text itself. A number \<open>p\<close> is printed with
  \<^verbatim>\<open>{:e}\<close> into \<^verbatim>\<open>'lambda strain: ...*(strain+1)'\<close> and that text is evaluated.
\<close>

definition resolve_position ::
  "(string \<Rightarrow> string + pyval) \<Rightarrow> element \<Rightarrow> error + pyval \<times> string \<times> string list" where
  "resolve_position user position =
     (case position of
        Function \<Rightarrow> Inl UnsupportedInputError
      | Str s \<Rightarrow>
          (case py_eval user s of
             Inr f \<Rightarrow> Inr (f, s, [])
           | Inl msg \<Rightarrow> Inr (PyStr s, s, not_converted s 20 msg))
      | Num p \<Rightarrow>
          (case py_eval user (''lambda strain: '' @ format_e p @ ''*(strain+1)'') of
             Inr f \<Rightarrow> Inr (f, ''lambda strain: '' @ format_e p @ ''*(strain+1)'', [])
           | Inl msg \<Rightarrow> Inl (EvalError msg))
      | Other \<Rightarrow> Inl InvalidInputError)"

text \<open>
  \<^verbatim>\<open>for i in range(self.numAtoms): self.mass = self.mass + self.atoms[i][0].mass\<close>, over
  the list of indices; an index beyond the list raises.
\<close>

fun mass_loop :: "(atom \<times> pyval \<times> string) list \<Rightarrow> nat list \<Rightarrow> real \<Rightarrow> error + real" where
  "mass_loop ats [] m = Inr m"
| "mass_loop ats (i # rest) m =
     (if i < length ats then mass_loop ats rest (m + atom_mass (fst (ats ! i)))
      else Inl IndexError)"

definition addAtom ::
  "(string \<Rightarrow> string + pyval) \<Rightarrow> unitCell \<Rightarrow> atom \<Rightarrow> element
     \<Rightarrow> error + unitCell \<times> string list" where
  "addAtom user uc a position =
     (case resolve_position user position of
        Inl e \<Rightarrow> Inl e
      | Inr (pos, positionStr, printed) \<Rightarrow>
     (case mass_loop (atoms uc @ [(a, pos, positionStr)]) [0..<numAtoms uc + 1] 0 of
        Inl e \<Rightarrow> Inl e
      | Inr m \<Rightarrow>
          if volume uc = 0 \<or> area uc = 0 then Inl ZeroDivisionError
          else
            (case calcSpringConst
                (uc\<lparr>atoms := atoms uc @ [(a, pos, positionStr)],
                    numAtoms := numAtoms uc + 1,
                    density := m / volume uc,
                    mass := m * 1 * angstrom ^ 2 / area uc\<rparr>) of
               Inl e \<Rightarrow> Inl e
             | Inr uc' \<Rightarrow> Inr (uc', printed))))"

text \<open>\<^verbatim>\<open>addMultipleAtoms\<close>: \<^verbatim>\<open>addAtom\<close>, \<open>Nb\<close> times.\<close>

fun addMultipleAtoms ::
  "(string \<Rightarrow> string + pyval) \<Rightarrow> unitCell \<Rightarrow> atom \<Rightarrow> element \<Rightarrow> nat
     \<Rightarrow> error + unitCell \<times> string list" where
  "addMultipleAtoms user uc a position 0 = Inr (uc, [])"
| "addMultipleAtoms user uc a position (Suc Nb) =
     (case addAtom user uc a position of
        Inl e \<Rightarrow> Inl e
      | Inr (uc', p1) \<Rightarrow>
          (case addMultipleAtoms user uc' a position Nb of
             Inl e \<Rightarrow> Inl e
           | Inr (uc'', p2) \<Rightarrow> Inr (uc'', p1 @ p2)))"

subsection \<open>\<^verbatim>\<open>setHOspringConstants\<close> and \<^verbatim>\<open>getAcousticImpedance\<close>\<close>

text \<open>
  \<^verbatim>\<open>np.delete\<close> keeps the first element and \<^verbatim>\<open>np.hstack\<close> appends the array of higher
  orders; the result is an integer array only when both are.
\<close>

definition setHOspringConstants :: "unitCell \<Rightarrow> ndarray \<Rightarrow> unitCell" where
  "setHOspringConstants uc HO =
     uc\<lparr>springConst :=
          \<lparr>dtype = (if dtype (springConst uc) = Int64 \<and> dtype HO = Int64 then Int64
                    else Float64),
           vals = take 1 (vals (springConst uc)) @ vals HO\<rparr>\<rparr>"

text \<open>
  \<^verbatim>\<open>np.sqrt(self.springConst[0] * self.mass/self.area**2)\<close>. The product is a numpy
  number, so a zero area or a negative quotient gives \<^verbatim>\<open>inf\<close> or \<^verbatim>\<open>nan\<close> and a warning:
  no real number, which the model calls \<open>None\<close>.
\<close>

definition getAcousticImpedance :: "unitCell \<Rightarrow> error + real option" where
  "getAcousticImpedance uc =
     (case vals (springConst uc) of
        [] \<Rightarrow> Inl IndexError
      | k # higher \<Rightarrow>
          if area uc = 0 \<or> k * mass uc / area uc ^ 2 < 0 then Inr None
          else Inr (Some (sqrt (k * mass uc / area uc ^ 2))))"

subsection \<open>\<^verbatim>\<open>intHeatCapacity\<close>\<close>

text \<open>
  The list objects behind \<^verbatim>\<open>_intHeatCapacity\<close> and \<^verbatim>\<open>_intLinThermExp\<close> live in a store: a
  map from references to lists, and the next free reference. A list display \<^verbatim>\<open>[]\<close> and
  the list a call returns are new objects.
\<close>

record store =
  objects :: "nat \<Rightarrow> pyval list option"
  next_ref :: nat

definition alloc :: "store \<Rightarrow> pyval list \<Rightarrow> nat \<times> store" where
  "alloc h xs = (next_ref h, h\<lparr>objects := (objects h)(next_ref h \<mapsto> xs), next_ref := Suc (next_ref h)\<rparr>)"

definition empty_store :: store where
  "empty_store = \<lparr>objects = (\<lambda>r. None), next_ref = 0\<rparr>"

definition append_to :: "store \<Rightarrow> nat \<Rightarrow> pyval \<Rightarrow> store" where
  "append_to h r x =
     h\<lparr>objects := (objects h)(r := map_option (\<lambda>xs. xs @ [x]) (objects h r))\<rparr>"

text \<open>
  What the getter does besides returning: the lines it prints and the calls it makes to
  the symbolic integration.
\<close>

datatype event = Printed string | Integrated string

text \<open>\<^verbatim>\<open>s.split(':')\<close>, the piece being read as second argument.\<close>

primrec split_acc :: "string \<Rightarrow> string \<Rightarrow> string list" where
  "split_acc [] piece = [piece]"
| "split_acc (c # s) piece =
     (if c = CHR '':'' then piece # split_acc s [] else split_acc s (piece @ [c]))"

definition split_colon :: "string \<Rightarrow> string list" where
  "split_colon s = split_acc s []"

definition integration_failed :: string where
  "integration_failed =
     ''The sympy integration did not work. You can set the''
     @ ''analytical anti-derivative of the heat capacity''
     @ ''of your unit cells as lambda function of the temperature''
     @ ''T by typing UC.intHeatCapacity = lambda T: c(T)''
     @ ''where UC is the name of the unit cell object.''"

text \<open>
  The loop of the getter inside its \<^verbatim>\<open>try\<close>. The parameter \<open>sympy\<close> is the library: for the text
  of an expression it returns the message of the exception that \<^verbatim>\<open>integrate\<close> or
  \<^verbatim>\<open>lambdify\<close> raises, or the function \<^verbatim>\<open>lambdify(T, integral)\<close> and the text
  \<^verbatim>\<open>str(integral)\<close>. An exception, also the \<^verbatim>\<open>IndexError\<close> of a string without a colon,
  ends the loop with two printed lines and leaves what was appended before.
\<close>

fun integrate_loop ::
  "(string \<Rightarrow> string + pyval \<times> string) \<Rightarrow> string list \<Rightarrow> nat
     \<Rightarrow> store \<times> string list \<times> event list \<Rightarrow> store \<times> string list \<times> event list" where
  "integrate_loop sympy [] r acc = acc"
| "integrate_loop sympy (hcs # rest) r (h, strs, events) =
     (case split_colon hcs of
        piece0 # piece1 # pieces \<Rightarrow>
          (case sympy piece1 of
             Inr (f, integral) \<Rightarrow>
               integrate_loop sympy rest r
                 (append_to h r f, strs @ [''lambda T : '' @ integral],
                  events @ [Integrated piece1])
           | Inl msg \<Rightarrow>
               (h, strs,
                events @ [Integrated piece1, Printed integration_failed, Printed msg]))
      | _ \<Rightarrow>
          (h, strs,
           events @ [Printed integration_failed, Printed ''list index out of range'']))"

text \<open>
  The getter. In the model an attribute that exists holds a list, so the test
  \<^verbatim>\<open>hasattr(...) and isinstance(..., list)\<close> is the test that it exists. The result is the
  reference returned, the object, the store and the events.
\<close>

definition get_intHeatCapacity ::
  "(string \<Rightarrow> string + pyval \<times> string) \<Rightarrow> unitCell \<times> store
     \<Rightarrow> nat \<times> (unitCell \<times> store) \<times> event list" where
  "get_intHeatCapacity sympy st =
     (case intHeatCapacity_attr (fst st) of
        Some r \<Rightarrow> (r, st, [])
      | None \<Rightarrow>
          (case integrate_loop sympy (heatCapacityStr (fst st)) (fst (alloc (snd st) []))
                  (snd (alloc (snd st) []), [], []) of
             (h, strs, events) \<Rightarrow>
               (fst (alloc (snd st) []),
                ((fst st)\<lparr>intHeatCapacity_attr := Some (fst (alloc (snd st) [])),
                          intHeatCapacityStr := Some strs\<rparr>, h),
                events)))"

text \<open>The setters: the input is resolved and the two attributes are assigned.\<close>

definition set_intHeatCapacity ::
  "(string \<Rightarrow> string + pyval) \<Rightarrow> unitCell \<times> store \<Rightarrow> inputs
     \<Rightarrow> error + (unitCell \<times> store) \<times> string list" where
  "set_intHeatCapacity user st inp =
     (case checkCellArrayInput user inp of
        Inl e \<Rightarrow> Inl e
      | Inr (fs, strs, printed) \<Rightarrow>
          Inr (((fst st)\<lparr>intHeatCapacity_attr := Some (fst (alloc (snd st) fs)),
                         intHeatCapacityStr := Some strs\<rparr>,
                snd (alloc (snd st) fs)),
               printed))"

definition set_intLinThermExp ::
  "(string \<Rightarrow> string + pyval) \<Rightarrow> unitCell \<times> store \<Rightarrow> inputs
     \<Rightarrow> error + (unitCell \<times> store) \<times> string list" where
  "set_intLinThermExp user st inp =
     (case checkCellArrayInput user inp of
        Inl e \<Rightarrow> Inl e
      | Inr (fs, strs, printed) \<Rightarrow>
          Inr (((fst st)\<lparr>intLinThermExp_attr := Some (fst (alloc (snd st) fs)),
                         intLinThermExpStr := Some strs\<rparr>,
                snd (alloc (snd st) fs)),
               printed))"

subsection \<open>\<^verbatim>\<open>getPropertyStruct\<close>\<close>

text \<open>
  \<^verbatim>\<open>vars(self)\<close>: the attributes that exist, under their Python names. The sound velocity
  is there as \<^verbatim>\<open>_soundVel\<close>. The four attributes of the integrals come last; the order
  among them, which depends on which was assigned first, is not kept.
\<close>

datatype attr =
    AStr string
  | ANum real
  | ACount nat
  | AArray ndarray
  | AOptical scalar_or_array
  | AFunctions "pyval list"
  | AStrings "string list"
  | AAtoms "(atom \<times> pyval \<times> string) list"
  | ARef nat

definition optional_attr :: "string \<Rightarrow> 'a option \<Rightarrow> ('a \<Rightarrow> attr) \<Rightarrow> (string \<times> attr) list" where
  "optional_attr key v wrap = (case v of None \<Rightarrow> [] | Some x \<Rightarrow> [(key, wrap x)])"

definition vars_self :: "unitCell \<Rightarrow> (string \<times> attr) list" where
  "vars_self uc =
     [(''ID'', AStr (ID uc)), (''name'', AStr (name uc)), (''cAxis'', ANum (cAxis uc)),
      (''aAxis'', ANum (aAxis uc)), (''bAxis'', ANum (bAxis uc)),
      (''atoms'', AAtoms (atoms uc)), (''numAtoms'', ACount (numAtoms uc)),
      (''mass'', ANum (mass uc)), (''density'', ANum (density uc)),
      (''springConst'', AArray (springConst uc)), (''debWalFac'', ANum (debWalFac uc)),
      (''_soundVel'', ANum (soundVel uc)), (''phononDamping'', ANum (phononDamping uc)),
      (''optPenDepth'', ANum (optPenDepth uc)), (''optRefIndex'', AOptical (optRefIndex uc)),
      (''optRefIndexPerStrain'', AOptical (optRefIndexPerStrain uc)),
      (''heatCapacity'', AFunctions (heatCapacity uc)),
      (''heatCapacityStr'', AStrings (heatCapacityStr uc)),
      (''thermCond'', AFunctions (thermCond uc)),
      (''thermCondStr'', AStrings (thermCondStr uc)),
      (''linThermExp'', AFunctions (linThermExp uc)),
      (''linThermExpStr'', AStrings (linThermExpStr uc)),
      (''subSystemCoupling'', AFunctions (subSystemCoupling uc)),
      (''subSystemCouplingStr'', AStrings (subSystemCouplingStr uc)),
      (''numSubSystems'', ACount (numSubSystems uc)),
      (''area'', ANum (area uc)), (''volume'', ANum (volume uc))]
     @ optional_attr ''_intHeatCapacity'' (intHeatCapacity_attr uc) ARef
     @ optional_attr ''intHeatCapacityStr'' (intHeatCapacityStr uc) AStrings
     @ optional_attr ''_intLinThermExp'' (intLinThermExp_attr uc) ARef
     @ optional_attr ''intLinThermExpStr'' (intLinThermExpStr uc) AStrings"

definition propertiesByTypes :: "(string \<times> string list) list" where
  "propertiesByTypes =
     [(''heat'', [''cAxis'', ''area'', ''volume'', ''optPenDepth'', ''thermCondStr'',
                  ''heatCapacityStr'', ''intHeatCapacityStr'', ''subSystemCouplingStr'',
                  ''numSubSystems'']),
      (''phonon'', [''numSubSystems'', ''intLinThermExpStr'', ''cAxis'', ''mass'',
                    ''springConst'', ''phononDamping'']),
      (''XRD'', [''numAtoms'', ''atoms'', ''area'', ''debWalFac'', ''cAxis'']),
      (''optical'', [''cAxis'', ''optPenDepth'', ''optRefIndex'', ''optRefIndexPerStrain''])]"

text \<open>
  \<^verbatim>\<open>getPropertyStruct(types=...)\<close>; \<open>None\<close> is a call without the keyword, for which
  \<^verbatim>\<open>kwargs.get('types')\<close> is \<^verbatim>\<open>None\<close> and the lookup raises \<^verbatim>\<open>KeyError\<close>, as it does for
  any name that is not a key. The dictionary returned is a map from names to values.
\<close>

definition getPropertyStruct :: "unitCell \<Rightarrow> string option \<Rightarrow> error + (string \<Rightarrow> attr option)" where
  "getPropertyStruct uc types =
     (if types = Some ''all'' then Inr (map_of (vars_self uc))
      else case types of
        None \<Rightarrow> Inl KeyError
      | Some t \<Rightarrow>
          (case map_of propertiesByTypes t of
             None \<Rightarrow> Inl KeyError
           | Some keys \<Rightarrow> Inr (map_of (filter (\<lambda>(k, v). k \<in> set keys) (vars_self uc)))))"

section \<open>Evaluating the model\<close>

text \<open>
  The recursive equations of the digit loops are not simplification rules; these
  collections evaluate the formatting and the parsing on a given number or text.
\<close>

lemma replicate_numeral_unfold: "replicate (numeral k) x = x # replicate (pred_numeral k) x"
  by (simp add: numeral_eq_Suc)

lemmas text_simps = str_nat.simps digit_char_def zfill_def replicate_numeral_unfold
  sign_str_def fixed6_def round_half_even_def

lemmas format_e_simps = format_e_def decimal_exponent_def scaled_def exponent_str_def
  exp_up.simps exp_down.simps

lemmas parse_simps = parse_float_def parse_unsigned_def is_digit_def digit_val_def
  digits_val_def

lemma format_f_zero: "format_f 0 = ''0.000000''"
  by (simp add: format_f_def text_simps)

lemma format_f_small: "format_f (1 / 10000000) = ''0.000000''"
  by (simp add: format_f_def text_simps)

lemma eval_zero_lambda: "eval_generated ''lambda T: 0.000000'' = Some (\<lambda>T. 0)"
  by (simp add: eval_generated_def parse_simps)

lemma resolve_zero:
  "checkCellArrayInput user (Single (Num 0))
     = Inr ([PyLambda (\<lambda>T. 0)], [''lambda T: 0.000000''], [])"
  using eval_zero_lambda by (simp add: checkCellArrayInput_def py_eval_def format_f_zero)

lemma format_e_third: "format_e (1 / 3) = ''3.333333e-01''"
  by (simp add: format_e_simps text_simps)

lemma format_e_half: "format_e (1 / 2) = ''5.000000e-01''"
  by (simp add: format_e_simps text_simps)

lemma eval_third_lambda:
  "eval_generated ''lambda strain: 3.333333e-01*(strain+1)''
     = Some (\<lambda>strain. 3333333 / 10000000 * (strain + 1))"
  by (simp add: eval_generated_def parse_simps)

lemma eval_half_lambda:
  "eval_generated ''lambda strain: 5.000000e-01*(strain+1)''
     = Some (\<lambda>strain. 1 / 2 * (strain + 1))"
  by (simp add: eval_generated_def parse_simps)

lemma resolve_position_third:
  "resolve_position user (Num (1 / 3))
     = Inr (PyLambda (\<lambda>strain. 3333333 / 10000000 * (strain + 1)),
            ''lambda strain: 3.333333e-01*(strain+1)'', [])"
  using eval_third_lambda by (simp add: resolve_position_def py_eval_def format_e_third)

lemma resolve_position_half:
  "resolve_position user (Num (1 / 2))
     = Inr (PyLambda (\<lambda>strain. 1 / 2 * (strain + 1)),
            ''lambda strain: 5.000000e-01*(strain+1)'', [])"
  using eval_half_lambda by (simp add: resolve_position_def py_eval_def format_e_half)

lemma resolve_two_zeros:
  "checkCellArrayInput user (ListOf [Num 0, Num 0])
     = Inr ([PyLambda (\<lambda>T. 0), PyLambda (\<lambda>T. 0)],
            [''lambda T: 0.000000'', ''lambda T: 0.000000''], [])"
  using eval_zero_lambda by (simp add: checkCellArrayInput_def py_eval_def format_f_zero)

lemma eval_bad_text: "py_eval (\<lambda>s. Inl ''invalid syntax'') ''T*'' = Inl ''invalid syntax''"
  by (simp add: py_eval_def eval_generated_def)

lemmas object_simps = init_def init_fields_def set_soundVel_def calcSpringConst_def
  setitem0_def trunc_to_int_def get_kw_def no_kwargs_def resolve_zero addAtom_def
  angstrom_def power_divide

lemma resolve_with_bad_text:
  "checkCellArrayInput (\<lambda>s. Inl ''invalid syntax'') (ListOf [Num 0, Str ''T*'', Num 0])
     = Inr ([PyLambda (\<lambda>T. 0), PyLambda (\<lambda>T. 0)],
            [''lambda T: 0.000000'', ''lambda T: 0.000000''],
            not_converted ''T*'' 24 ''invalid syntax'')"
  using eval_zero_lambda eval_bad_text
  by (simp add: checkCellArrayInput_def py_eval_def format_f_zero)

lemma init_default_returns:
  "\<exists>uc. init user ID' name' 1 no_kwargs = Inr (uc, []) \<and> numSubSystems uc = 1"
  by (simp add: object_simps)

section \<open>Reading back a printed number\<close>

text \<open>
  The text that \<^verbatim>\<open>{:f}\<close> or \<^verbatim>\<open>{:e}\<close> prints is read back as the number it denotes: the
  digits of a natural number are digits and give the number back, padding with zeros
  changes nothing, and the literal is read up to the first character that is not part of
  it.
\<close>

lemma digit_cases:
  "d < (10::nat) \<Longrightarrow>
     d = 0 \<or> d = 1 \<or> d = 2 \<or> d = 3 \<or> d = 4 \<or> d = 5 \<or> d = 6 \<or> d = 7 \<or> d = 8 \<or> d = 9"
  by arith

lemma is_digit_digit_char: "d < 10 \<Longrightarrow> is_digit (digit_char d)"
  using digit_cases[of d] by (auto simp: is_digit_def digit_char_def)

lemma digit_val_digit_char: "d < 10 \<Longrightarrow> digit_val (digit_char d) = d"
  using digit_cases[of d] by (auto simp: digit_val_def digit_char_def)

lemma str_nat_digits: "list_all is_digit (str_nat n)"
proof (induction n rule: str_nat.induct)
  case (1 n)
  show ?case
  proof (cases "n < 10")
    case True
    then show ?thesis
      by (simp add: str_nat.simps[of n] is_digit_digit_char)
  next
    case False
    with 1 show ?thesis
      by (simp add: str_nat.simps[of n] is_digit_digit_char)
  qed
qed

lemma str_nat_not_empty: "str_nat n \<noteq> []"
  by (simp add: str_nat.simps[of n])

lemma digits_val_snoc: "digits_val (s @ [c]) = 10 * digits_val s + digit_val c"
  by (simp add: digits_val_def)

lemma digits_val_str_nat: "digits_val (str_nat n) = n"
proof (induction n rule: str_nat.induct)
  case (1 n)
  show ?case
  proof (cases "n < 10")
    case True
    then show ?thesis
      by (simp add: str_nat.simps[of n] digits_val_def digit_val_digit_char)
  next
    case False
    with 1 show ?thesis
      by (simp add: str_nat.simps[of n] digits_val_snoc digit_val_digit_char)
  qed
qed

lemma length_str_nat: "n < 10 ^ k \<Longrightarrow> 0 < k \<Longrightarrow> length (str_nat n) \<le> k"
proof (induction n arbitrary: k rule: str_nat.induct)
  case (1 n)
  show ?case
  proof (cases "n < 10")
    case True
    with 1(3) show ?thesis
      by (simp add: str_nat.simps[of n])
  next
    case False
    obtain j where k: "k = Suc j"
      using 1(3) by (cases k) simp_all
    have "0 < j"
    proof (rule ccontr)
      assume "\<not> 0 < j"
      with k 1(2) False show False
        by simp
    qed
    moreover have "n div 10 < 10 ^ j"
      using 1(2) k by (simp add: less_mult_imp_div_less mult.commute)
    ultimately have "length (str_nat (n div 10)) \<le> j"
      using 1(1)[OF False] by simp
    with False k show ?thesis
      by (simp add: str_nat.simps[of n])
  qed
qed

lemma digits_val_zeros: "digits_val (replicate j (CHR ''0'') @ s) = digits_val s"
  by (induction j) (simp_all add: digits_val_def digit_val_def)

lemma is_digit_zero: "is_digit (CHR ''0'')"
  by (simp add: is_digit_def)

lemma zfill_digits: "list_all is_digit s \<Longrightarrow> list_all is_digit (zfill k s)"
  by (simp add: zfill_def list_all_length nth_append is_digit_zero)

lemma digits_val_zfill: "digits_val (zfill k s) = digits_val s"
  by (simp add: zfill_def digits_val_zeros)

lemma length_zfill: "length s \<le> k \<Longrightarrow> length (zfill k s) = k"
  by (simp add: zfill_def)

lemma zfill_not_empty: "s \<noteq> [] \<Longrightarrow> zfill k s \<noteq> []"
  by (simp add: zfill_def)

lemma takeWhile_digits:
  "list_all is_digit ds \<Longrightarrow> r = [] \<or> \<not> is_digit (hd r) \<Longrightarrow> takeWhile is_digit (ds @ r) = ds"
  by (cases r) (auto simp: list_all_iff takeWhile_append2)

lemma dropWhile_digits:
  "list_all is_digit ds \<Longrightarrow> r = [] \<or> \<not> is_digit (hd r) \<Longrightarrow> dropWhile is_digit (ds @ r) = r"
  by (cases r) (auto simp: list_all_iff dropWhile_append2)

lemma point_not_digit: "\<not> is_digit (CHR ''.'')"
  by (simp add: is_digit_def)

lemma parse_unsigned_literal:
  assumes "list_all is_digit d1" "d1 \<noteq> []" "list_all is_digit d2" "d2 \<noteq> []"
    and "r = [] \<or> \<not> is_digit (hd r)"
  shows "parse_unsigned (d1 @ CHR ''.'' # d2 @ r)
     = Some ((real (digits_val d1) + real (digits_val d2) / 10 ^ length d2)
               * fst (parse_exponent r), snd (parse_exponent r))"
proof -
  have t1: "takeWhile is_digit (d1 @ CHR ''.'' # d2 @ r) = d1"
    using assms(1) by (rule takeWhile_digits) (simp add: point_not_digit)
  have d1: "dropWhile is_digit (d1 @ CHR ''.'' # d2 @ r) = CHR ''.'' # d2 @ r"
    using assms(1) by (rule dropWhile_digits) (simp add: point_not_digit)
  have t2: "takeWhile is_digit (d2 @ r) = d2"
    using assms(3,5) by (rule takeWhile_digits)
  have d2: "dropWhile is_digit (d2 @ r) = r"
    using assms(3,5) by (rule dropWhile_digits)
  show ?thesis
    unfolding parse_unsigned_def t1 d1 using assms(2,4) by (simp add: t2 d2)
qed

lemma parse_float_literal:
  assumes "list_all is_digit d1" "d1 \<noteq> []" "list_all is_digit d2" "d2 \<noteq> []"
    and "r = [] \<or> \<not> is_digit (hd r)"
  shows "parse_float (sign_str v @ d1 @ CHR ''.'' # d2 @ r)
     = Some ((if v < 0 then - 1 else 1)
               * ((real (digits_val d1) + real (digits_val d2) / 10 ^ length d2)
                    * fst (parse_exponent r)),
             snd (parse_exponent r))"
proof (cases "v < 0")
  case True
  then show ?thesis
    by (simp add: parse_float_def sign_str_def parse_unsigned_literal[OF assms])
next
  case False
  obtain c rest where d1: "d1 = c # rest"
    using assms(2) by (cases d1) simp_all
  have "is_digit c"
    using assms(1) d1 by simp
  then have "c \<noteq> CHR ''-''"
    by (auto simp: is_digit_def)
  with False parse_unsigned_literal[OF assms] show ?thesis
    by (simp add: parse_float_def sign_str_def d1)
qed

lemma parse_exponent_digits:
  assumes "list_all is_digit ds" "ds \<noteq> []" "r \<noteq> []" "\<not> is_digit (hd r)"
  shows "parse_exponent (CHR ''e'' # CHR ''-'' # ds @ r) = (1 / 10 ^ digits_val ds, r)"
    and "parse_exponent (CHR ''e'' # CHR ''+'' # ds @ r) = (10 ^ digits_val ds, r)"
proof -
  have t: "takeWhile is_digit (ds @ r) = ds"
    using assms by (simp add: takeWhile_digits)
  have d: "dropWhile is_digit (ds @ r) = r"
    using assms by (simp add: dropWhile_digits)
  show "parse_exponent (CHR ''e'' # CHR ''-'' # ds @ r) = (1 / 10 ^ digits_val ds, r)"
    using assms(2) by (simp add: t d)
  show "parse_exponent (CHR ''e'' # CHR ''+'' # ds @ r) = (10 ^ digits_val ds, r)"
    using assms(2) by (simp add: t d)
qed

lemma parse_exponent_str:
  assumes "r \<noteq> []" "\<not> is_digit (hd r)"
  shows "parse_exponent (exponent_str e @ r) = (pow10 e, r)"
proof -
  define ds where "ds = zfill 2 (str_nat (nat \<bar>e\<bar>))"
  have digits: "list_all is_digit ds"
    by (simp add: ds_def zfill_digits str_nat_digits)
  have ne: "ds \<noteq> []"
    by (simp add: ds_def zfill_not_empty str_nat_not_empty)
  have v: "digits_val ds = nat \<bar>e\<bar>"
    by (simp add: ds_def digits_val_zfill digits_val_str_nat)
  note p = parse_exponent_digits[OF digits ne assms]
  show ?thesis
  proof (cases "e < 0")
    case True
    then have eq: "exponent_str e @ r = CHR ''e'' # CHR ''-'' # ds @ r"
      by (simp add: exponent_str_def ds_def)
    show ?thesis
      unfolding eq p(1) using True by (simp add: v pow10_def)
  next
    case False
    then have eq: "exponent_str e @ r = CHR ''e'' # CHR ''+'' # ds @ r"
      by (simp add: exponent_str_def ds_def)
    show ?thesis
      unfolding eq p(2) using False by (simp add: v pow10_def)
  qed
qed

lemma fixed6_value:
  "real (m div 1000000) + real (m mod 1000000) / 1000000 = real m / 1000000"
proof -
  have "real m = real (1000000 * (m div 1000000) + m mod 1000000)"
    by simp
  also have "\<dots> = 1000000 * real (m div 1000000) + real (m mod 1000000)"
    by (simp only: of_nat_add of_nat_mult of_nat_numeral)
  finally show ?thesis
    by simp
qed

lemma fixed6_parts:
  "fixed6 m = str_nat (m div 1000000) @ CHR ''.'' # zfill 6 (str_nat (m mod 1000000)) @ []"
  "list_all is_digit (str_nat (m div 1000000))"
  "str_nat (m div 1000000) \<noteq> []"
  "list_all is_digit (zfill 6 (str_nat (m mod 1000000)))"
  "zfill 6 (str_nat (m mod 1000000)) \<noteq> []"
  "length (zfill 6 (str_nat (m mod 1000000))) = 6"
proof -
  have "m mod 1000000 < 10 ^ 6"
    by simp
  then have "length (str_nat (m mod 1000000)) \<le> 6"
    by (rule length_str_nat) simp
  then show "length (zfill 6 (str_nat (m mod 1000000))) = 6"
    by (rule length_zfill)
qed (simp_all add: fixed6_def str_nat_digits str_nat_not_empty zfill_digits zfill_not_empty)

lemma parse_signed_fixed6:
  assumes "r = [] \<or> \<not> is_digit (hd r)"
  shows "parse_float (sign_str v @ fixed6 m @ r)
     = Some ((if v < 0 then - 1 else 1) * (real m / 1000000 * fst (parse_exponent r)),
             snd (parse_exponent r))"
proof -
  have "sign_str v @ fixed6 m @ r
      = sign_str v @ str_nat (m div 1000000) @ CHR ''.'' # zfill 6 (str_nat (m mod 1000000)) @ r"
    by (simp add: fixed6_def)
  then show ?thesis
    using parse_float_literal[OF fixed6_parts(2)[of m] fixed6_parts(3)[of m]
        fixed6_parts(4)[of m] fixed6_parts(5)[of m] assms, of v]
    by (simp add: fixed6_parts(6) digits_val_zfill digits_val_str_nat fixed6_value)
qed

lemma round_half_even_nonneg: "0 \<le> x \<Longrightarrow> 0 \<le> round_half_even x"
  by (simp add: round_half_even_def)

lemma parse_format_f: "parse_float (format_f v) = Some (value_f v, [])"
proof -
  have "0 \<le> round_half_even (\<bar>v\<bar> * 1000000)"
    by (rule round_half_even_nonneg) simp
  then show ?thesis
    using parse_signed_fixed6[of "[]" v "nat (round_half_even (\<bar>v\<bar> * 1000000))"]
    by (simp add: format_f_def value_f_def)
qed

lemma pow10_next: "pow10 (e + 1) = 10 * pow10 e"
proof -
  consider "e < - 1" | "e = - 1" | "0 \<le> e"
    by linarith
  then show ?thesis
  proof cases
    case 1
    then have "nat (- e) = Suc (nat (- (e + 1)))"
      by simp
    with 1 show ?thesis
      by (simp add: pow10_def)
  next
    case 2
    then show ?thesis
      by (simp add: pow10_def)
  next
    case 3
    then have "nat (e + 1) = Suc (nat e)"
      by simp
    with 3 show ?thesis
      by (simp add: pow10_def)
  qed
qed

lemma format_e_zero: "format_e 0 = sign_str 0 @ fixed6 0 @ exponent_str 0"
  by (simp add: format_e_def text_simps exponent_str_def)

lemma parse_format_e:
  assumes "r \<noteq> []" "\<not> is_digit (hd r)"
  shows "parse_float (format_e v @ r) = Some (value_e v, r)"
proof -
  let ?e = "decimal_exponent \<bar>v\<bar>"
  let ?M = "round_half_even (scaled \<bar>v\<bar> ?e)"
  have ex: "exponent_str e @ r = [] \<or> \<not> is_digit (hd (exponent_str e @ r))" for e
    by (simp add: exponent_str_def is_digit_def)
  have parse: "parse_float (sign_str v @ fixed6 m @ exponent_str e @ r)
      = Some ((if v < 0 then - 1 else 1) * (real m / 1000000 * pow10 e), r)" for m e
    using parse_signed_fixed6[OF ex, of v m e] by (simp add: parse_exponent_str[OF assms])
  show ?thesis
  proof (cases "v = 0")
    case True
    with parse[of 0 0] show ?thesis
      by (simp add: format_e_zero value_e_def)
  next
    case v: False
    show ?thesis
    proof (cases "?M = 10000000")
      case True
      with v parse[of 1000000 "?e + 1"] show ?thesis
        by (simp add: format_e_def value_e_def pow10_next)
    next
      case False
      have "0 \<le> scaled \<bar>v\<bar> ?e"
        by (simp add: scaled_def)
      then have "0 \<le> ?M"
        by (rule round_half_even_nonneg)
      with v False parse[of "nat ?M" ?e] show ?thesis
        by (simp add: format_e_def value_e_def)
    qed
  qed
qed

lemma eval_format_f: "eval_generated (''lambda T: '' @ format_f v) = Some (\<lambda>T. value_f v)"
  by (simp add: eval_generated_def parse_format_f)

lemma eval_format_e:
  "eval_generated (''lambda strain: '' @ format_e p @ ''*(strain+1)'')
     = Some (\<lambda>strain. value_e p * (strain + 1))"
proof -
  have "parse_float (format_e p @ ''*(strain+1)'') = Some (value_e p, ''*(strain+1)'')"
    by (rule parse_format_e) (simp_all add: is_digit_def)
  then show ?thesis
    by (simp add: eval_generated_def)
qed

section \<open>The resolver on a number\<close>

text \<open>
  A number always resolves, to the constant function whose value is the number rounded to
  six decimals.
\<close>

lemma checkCellArrayInput_number:
  "checkCellArrayInput user (Single (Num v))
     = Inr ([PyLambda (\<lambda>T. value_f v)], [''lambda T: '' @ format_f v], [])"
  using eval_format_f[of v] by (simp add: checkCellArrayInput_def py_eval_def)

text \<open>
  C1. For every number \<open>v\<close> the resolver should return one function, constant with value
  \<open>v\<close>. The code prints the number with \<^verbatim>\<open>{:f}\<close>, which keeps six decimals, and evaluates
  the text it printed: for \<open>v = 10\<^sup>-\<^sup>7\<close> the text is \<^verbatim>\<open>lambda T: 0.000000\<close> and the function
  returned is constant zero, not \<open>v\<close>.
\<close>

theorem checkCellArrayInput_number_keeps_six_decimals:
  "checkCellArrayInput user (Single (Num (1 / 10000000)))
     = Inr ([PyLambda (\<lambda>T. 0)], [''lambda T: 0.000000''], [])"
  using eval_zero_lambda by (simp add: checkCellArrayInput_def py_eval_def format_f_small)

section \<open>The loop of the resolver\<close>








text \<open>
  Both lists grow together, and each text appended evaluates to the object appended
  with it.
\<close>

lemma resolve_elements_aligned:
  "resolve_elements user xs (out, strs, printed) = Inr (out', strs', printed')
     \<Longrightarrow> aligned user out strs \<Longrightarrow> aligned user out' strs'"
proof (induction xs arbitrary: out strs printed)
  case Nil
  then show ?case
    by simp
next
  case (Cons x xs)
  have step: "aligned user (out @ [f]) (strs @ [t])" if "py_eval user t = Inr f" for f t
    using that Cons.prems(2) by (simp add: aligned_def list_all2_appendI)
  show ?case
  proof (cases x)
    case (Str s)
    with Cons.prems show ?thesis
      by (auto split: sum.splits intro: Cons.IH step)
  next
    case (Num v)
    with Cons.prems show ?thesis
      by (auto split: sum.splits intro: Cons.IH step)
  qed (use Cons.prems in simp_all)
qed

lemma checkCellArrayInput_aligned:
  "checkCellArrayInput user inp = Inr (fs, strs, printed) \<Longrightarrow> aligned user fs strs"
  unfolding checkCellArrayInput_def
  by (erule resolve_elements_aligned) (simp add: aligned_def)

lemma init_resolved:
  assumes "init user ID' name' cAxis' kw = Inr (uc, printed)"
  shows "\<exists>p1 p2 p3 p4.
      checkCellArrayInput user (get_kw (kw_heatCapacity kw) (Single (Num 0)))
        = Inr (heatCapacity uc, heatCapacityStr uc, p1)
      \<and> checkCellArrayInput user (get_kw (kw_thermCond kw) (Single (Num 0)))
        = Inr (thermCond uc, thermCondStr uc, p2)
      \<and> checkCellArrayInput user (get_kw (kw_linThermExp kw) (Single (Num 0)))
        = Inr (linThermExp uc, linThermExpStr uc, p3)
      \<and> checkCellArrayInput user (get_kw (kw_subSystemCoupling kw) (Single (Num 0)))
        = Inr (subSystemCoupling uc, subSystemCouplingStr uc, p4)"
  using assms by (auto simp: init_def split: sum.splits if_splits)



text \<open>
  C10. Whenever the resolver returns, the list of functions and the list of strings have
  the same length and the i-th function is what the i-th string evaluates to, also when
  elements were skipped. So the four pairs the constructor stores and the pair each
  setter of an integral stores are aligned.
\<close>

theorem resolved_pairs_aligned:
  "(checkCellArrayInput user inp = Inr (fs, strs, printed)
      \<longrightarrow> length fs = length strs \<and> aligned user fs strs)
   \<and> (init user ID' name' cAxis' kw = Inr (uc, printed1)
      \<longrightarrow> aligned user (heatCapacity uc) (heatCapacityStr uc)
        \<and> aligned user (thermCond uc) (thermCondStr uc)
        \<and> aligned user (linThermExp uc) (linThermExpStr uc)
        \<and> aligned user (subSystemCoupling uc) (subSystemCouplingStr uc))
   \<and> (set_intHeatCapacity user st inp2 = Inr ((uc2, h2), printed2)
      \<longrightarrow> (\<exists>r fs2 strs2. intHeatCapacity_attr uc2 = Some r \<and> objects h2 r = Some fs2
            \<and> intHeatCapacityStr uc2 = Some strs2 \<and> aligned user fs2 strs2))
   \<and> (set_intLinThermExp user st inp3 = Inr ((uc3, h3), printed3)
      \<longrightarrow> (\<exists>r fs3 strs3. intLinThermExp_attr uc3 = Some r \<and> objects h3 r = Some fs3
            \<and> intLinThermExpStr uc3 = Some strs3 \<and> aligned user fs3 strs3))"
proof (intro conjI impI)
  assume "checkCellArrayInput user inp = Inr (fs, strs, printed)"
  then have a: "aligned user fs strs"
    by (rule checkCellArrayInput_aligned)
  then show "length fs = length strs"
    by (simp add: aligned_def list_all2_lengthD)
  from a show "aligned user fs strs" .
next
  assume "init user ID' name' cAxis' kw = Inr (uc, printed1)"
  from init_resolved[OF this] obtain p1 p2 p3 p4 where
    "checkCellArrayInput user (get_kw (kw_heatCapacity kw) (Single (Num 0)))
        = Inr (heatCapacity uc, heatCapacityStr uc, p1)"
    "checkCellArrayInput user (get_kw (kw_thermCond kw) (Single (Num 0)))
        = Inr (thermCond uc, thermCondStr uc, p2)"
    "checkCellArrayInput user (get_kw (kw_linThermExp kw) (Single (Num 0)))
        = Inr (linThermExp uc, linThermExpStr uc, p3)"
    "checkCellArrayInput user (get_kw (kw_subSystemCoupling kw) (Single (Num 0)))
        = Inr (subSystemCoupling uc, subSystemCouplingStr uc, p4)"
    by blast
  then show "aligned user (heatCapacity uc) (heatCapacityStr uc)"
    "aligned user (thermCond uc) (thermCondStr uc)"
    "aligned user (linThermExp uc) (linThermExpStr uc)"
    "aligned user (subSystemCoupling uc) (subSystemCouplingStr uc)"
    by (blast intro: checkCellArrayInput_aligned)+
next
  assume "set_intHeatCapacity user st inp2 = Inr ((uc2, h2), printed2)"
  then obtain fs2 strs2 where r: "checkCellArrayInput user inp2 = Inr (fs2, strs2, printed2)"
    and uc2: "uc2 = (fst st)\<lparr>intHeatCapacity_attr := Some (next_ref (snd st)),
                             intHeatCapacityStr := Some strs2\<rparr>"
    and h2: "h2 = snd (alloc (snd st) fs2)"
    by (auto simp: set_intHeatCapacity_def alloc_def split: sum.splits)
  have "aligned user fs2 strs2"
    using r by (rule checkCellArrayInput_aligned)
  then show "\<exists>r fs2 strs2. intHeatCapacity_attr uc2 = Some r \<and> objects h2 r = Some fs2
      \<and> intHeatCapacityStr uc2 = Some strs2 \<and> aligned user fs2 strs2"
    by (simp add: uc2 h2 alloc_def)
next
  assume "set_intLinThermExp user st inp3 = Inr ((uc3, h3), printed3)"
  then obtain fs3 strs3 where r: "checkCellArrayInput user inp3 = Inr (fs3, strs3, printed3)"
    and uc3: "uc3 = (fst st)\<lparr>intLinThermExp_attr := Some (next_ref (snd st)),
                             intLinThermExpStr := Some strs3\<rparr>"
    and h3: "h3 = snd (alloc (snd st) fs3)"
    by (auto simp: set_intLinThermExp_def alloc_def split: sum.splits)
  have "aligned user fs3 strs3"
    using r by (rule checkCellArrayInput_aligned)
  then show "\<exists>r fs3 strs3. intLinThermExp_attr uc3 = Some r \<and> objects h3 r = Some fs3
      \<and> intLinThermExpStr uc3 = Some strs3 \<and> aligned user fs3 strs3"
    by (simp add: uc3 h3 alloc_def)
qed

text \<open>
  The claim at the list \<^verbatim>\<open>[0, 'T*', 0]\<close>, at the constructor without keywords and at
  the two setters called with the number 0.
\<close>

theorem resolved_pairs_aligned_witness:
  "checkCellArrayInput (\<lambda>s. Inl ''invalid syntax'') (ListOf [Num 0, Str ''T*'', Num 0])
     = Inr ([PyLambda (\<lambda>T. 0), PyLambda (\<lambda>T. 0)],
            [''lambda T: 0.000000'', ''lambda T: 0.000000''],
            not_converted ''T*'' 24 ''invalid syntax'')
   \<and> aligned (\<lambda>s. Inl ''invalid syntax'') [PyLambda (\<lambda>T. 0), PyLambda (\<lambda>T. 0)]
        [''lambda T: 0.000000'', ''lambda T: 0.000000'']
   \<and> (\<exists>uc. init (\<lambda>s. Inl ''invalid syntax'') ''UC'' ''cell'' 1 no_kwargs = Inr (uc, [])
        \<and> aligned (\<lambda>s. Inl ''invalid syntax'') (heatCapacity uc) (heatCapacityStr uc)
        \<and> aligned (\<lambda>s. Inl ''invalid syntax'') (thermCond uc) (thermCondStr uc)
        \<and> aligned (\<lambda>s. Inl ''invalid syntax'') (linThermExp uc) (linThermExpStr uc)
        \<and> aligned (\<lambda>s. Inl ''invalid syntax'') (subSystemCoupling uc)
             (subSystemCouplingStr uc)
        \<and> (\<exists>uc2 h2 r fs2 strs2.
              set_intHeatCapacity (\<lambda>s. Inl ''invalid syntax'') (uc, empty_store)
                  (Single (Num 0)) = Inr ((uc2, h2), [])
              \<and> intHeatCapacity_attr uc2 = Some r \<and> objects h2 r = Some fs2
              \<and> intHeatCapacityStr uc2 = Some strs2
              \<and> aligned (\<lambda>s. Inl ''invalid syntax'') fs2 strs2)
        \<and> (\<exists>uc3 h3 r fs3 strs3.
              set_intLinThermExp (\<lambda>s. Inl ''invalid syntax'') (uc, empty_store)
                  (Single (Num 0)) = Inr ((uc3, h3), [])
              \<and> intLinThermExp_attr uc3 = Some r \<and> objects h3 r = Some fs3
              \<and> intLinThermExpStr uc3 = Some strs3
              \<and> aligned (\<lambda>s. Inl ''invalid syntax'') fs3 strs3))"
proof -
  let ?u = "\<lambda>s::string. (Inl ''invalid syntax'' :: string + pyval)"
  obtain uc where uc: "init ?u ''UC'' ''cell'' 1 no_kwargs = Inr (uc, [])"
    using init_default_returns by blast
  obtain uc2 h2 where s2: "set_intHeatCapacity ?u (uc, empty_store) (Single (Num 0))
      = Inr ((uc2, h2), [])"
    by (simp add: set_intHeatCapacity_def resolve_zero)
  obtain uc3 h3 where s3: "set_intLinThermExp ?u (uc, empty_store) (Single (Num 0))
      = Inr ((uc3, h3), [])"
    by (simp add: set_intLinThermExp_def resolve_zero)
  note t = resolved_pairs_aligned[of ?u "ListOf [Num 0, Str ''T*'', Num 0]"
      "[PyLambda (\<lambda>T. 0), PyLambda (\<lambda>T. 0)]"
      "[''lambda T: 0.000000'', ''lambda T: 0.000000'']"
      "not_converted ''T*'' 24 ''invalid syntax''"
      "''UC''" "''cell''" 1 no_kwargs uc "[]"
      "(uc, empty_store)" "Single (Num 0)" uc2 h2 "[]"
      "Single (Num 0)" uc3 h3 "[]"]
  show ?thesis
    using t resolve_with_bad_text uc s2 s3 by blast
qed

section \<open>The constructor\<close>

lemma set_soundVel_init_fields:
  "cAxis' \<noteq> 0 \<Longrightarrow>
     set_soundVel (init_fields ID' name' cAxis' kw) v
       = Inr ((init_fields ID' name' cAxis' kw)\<lparr>soundVel := v\<rparr>)"
  by (simp add: set_soundVel_def calcSpringConst_def setitem0_def trunc_to_int_def
      init_fields_def)

text \<open>
  C3. When the four inputs resolve, the constructor raises the error of the mismatch
  whenever the four lists do not all have the same length, and otherwise returns the
  object, whose \<^verbatim>\<open>numSubSystems\<close> is the common length. The lists are resolved only after
  the \<^verbatim>\<open>soundVel\<close> setter has divided by \<^verbatim>\<open>cAxis\<close>, so \<^verbatim>\<open>cAxis\<close> is not zero when
  the constructor gets there.
\<close>

theorem init_checks_subsystem_count:
  assumes "cAxis' \<noteq> 0"
    and "checkCellArrayInput user (get_kw (kw_heatCapacity kw) (Single (Num 0)))
           = Inr (hc, hcs, p1)"
    and "checkCellArrayInput user (get_kw (kw_thermCond kw) (Single (Num 0)))
           = Inr (tc, tcs, p2)"
    and "checkCellArrayInput user (get_kw (kw_linThermExp kw) (Single (Num 0)))
           = Inr (lte, ltes, p3)"
    and "checkCellArrayInput user (get_kw (kw_subSystemCoupling kw) (Single (Num 0)))
           = Inr (ssc, sscs, p4)"
  shows "if length hc = length tc \<and> length hc = length lte \<and> length hc = length ssc
         then \<exists>uc printed. init user ID' name' cAxis' kw = Inr (uc, printed)
                \<and> numSubSystems uc = length hc
         else init user ID' name' cAxis' kw = Inl SubsystemCountMismatchError"
  using assms by (simp add: init_def set_soundVel_init_fields)

text \<open>
  The claim with two heat capacities and one of everything else, and without keywords.
\<close>

theorem init_checks_subsystem_count_witness:
  "(1::real) \<noteq> 0
   \<and> checkCellArrayInput (\<lambda>s. Inl ''invalid syntax'') (ListOf [Num 0, Num 0])
       = Inr ([PyLambda (\<lambda>T. 0), PyLambda (\<lambda>T. 0)],
              [''lambda T: 0.000000'', ''lambda T: 0.000000''], [])
   \<and> checkCellArrayInput (\<lambda>s. Inl ''invalid syntax'') (Single (Num 0))
       = Inr ([PyLambda (\<lambda>T. 0)], [''lambda T: 0.000000''], [])
   \<and> init (\<lambda>s. Inl ''invalid syntax'') ''UC'' ''cell'' 1
        (no_kwargs\<lparr>kw_heatCapacity := Some (ListOf [Num 0, Num 0])\<rparr>)
       = Inl SubsystemCountMismatchError
   \<and> (\<exists>uc printed. init (\<lambda>s. Inl ''invalid syntax'') ''UC'' ''cell'' 1 no_kwargs
          = Inr (uc, printed) \<and> numSubSystems uc = length [PyLambda (\<lambda>T. 0)])"
proof -
  let ?u = "\<lambda>s::string. (Inl ''invalid syntax'' :: string + pyval)"
  let ?kw = "no_kwargs\<lparr>kw_heatCapacity := Some (ListOf [Num 0, Num 0])\<rparr>"
  have one: "(1::real) \<noteq> 0"
    by simp
  have two: "checkCellArrayInput ?u (get_kw (kw_heatCapacity ?kw) (Single (Num 0)))
          = Inr ([PyLambda (\<lambda>T. 0), PyLambda (\<lambda>T. 0)],
                 [''lambda T: 0.000000'', ''lambda T: 0.000000''], [])"
    by (simp add: get_kw_def no_kwargs_def resolve_two_zeros)
  have dflt: "checkCellArrayInput ?u (get_kw None (Single (Num 0)))
          = Inr ([PyLambda (\<lambda>T. 0)], [''lambda T: 0.000000''], [])"
    by (simp add: get_kw_def resolve_zero)
  have kw: "kw_thermCond ?kw = None" "kw_linThermExp ?kw = None"
    "kw_subSystemCoupling ?kw = None" "kw_heatCapacity no_kwargs = None"
    "kw_thermCond no_kwargs = None" "kw_linThermExp no_kwargs = None"
    "kw_subSystemCoupling no_kwargs = None"
    by (simp_all add: no_kwargs_def)
  have mismatch: "init ?u ''UC'' ''cell'' 1 ?kw = Inl SubsystemCountMismatchError"
    using init_checks_subsystem_count[of 1 ?u ?kw _ _ _ _ _ _ _ _ _ _ _ _ "''UC''" "''cell''", OF one two]
      dflt by (simp add: kw)
  have agree: "\<exists>uc printed. init ?u ''UC'' ''cell'' 1 no_kwargs = Inr (uc, printed)
      \<and> numSubSystems uc = length [PyLambda (\<lambda>T. 0)]"
    using init_checks_subsystem_count[of 1 ?u no_kwargs _ _ _ _ _ _ _ _ _ _ _ _ "''UC''" "''cell''", OF one]
      dflt by (simp add: kw)
  show ?thesis
    using one mismatch agree resolve_two_zeros[of ?u] resolve_zero[of ?u] by simp
qed

section \<open>\<^verbatim>\<open>addAtom\<close>\<close>

text \<open>
  A number given as position always resolves, to the function
  \<open>strain \<mapsto> q * (strain + 1)\<close> where \<open>q\<close> is the number rounded to seven significant digits.
\<close>

lemma resolve_position_number:
  "resolve_position user (Num p)
     = Inr (PyLambda (\<lambda>strain. value_e p * (strain + 1)),
            ''lambda strain: '' @ format_e p @ ''*(strain+1)'', [])"
  using eval_format_e[of p] by (simp add: resolve_position_def py_eval_def)

lemma value_e_half: "value_e (1 / 2) = 1 / 2"
  by (simp add: value_e_def decimal_exponent_def scaled_def exp_up.simps exp_down.simps
      round_half_even_def pow10_def)

text \<open>
  What a call that returns has done: the atom is appended, the count follows the list,
  the density is the sum of the masses over the volume, the mass is that sum times one
  square angstrom over the area, and the product of that mass and the square of
  \<^verbatim>\<open>soundVel/cAxis\<close> has been stored into the first place of the array.
\<close>

lemma setitem0_float:
  "setitem0 a x = Inr a' \<Longrightarrow> dtype a = Float64 \<Longrightarrow> vals a' ! 0 = x"
  by (auto simp: setitem0_def split: if_splits)

lemma setitem0_int:
  "setitem0 a x = Inr a' \<Longrightarrow> dtype a = Int64 \<Longrightarrow> vals a' ! 0 = of_int (trunc_to_int x)"
  by (auto simp: setitem0_def split: if_splits)

lemma mass_loop_upt:
  "n \<le> length ats \<Longrightarrow>
     mass_loop ats [i..<n] m = Inr (m + (\<Sum>j\<leftarrow>[i..<n]. atom_mass (fst (ats ! j))))"
proof (induction "n - i" arbitrary: i m)
  case 0
  then show ?case
    by simp
next
  case (Suc d)
  then have "i < n" "d = n - Suc i"
    by simp_all
  with Suc.hyps(1)[of "Suc i" "m + atom_mass (fst (ats ! i))"] Suc.prems show ?case
    by (simp add: upt_conv_Cons)
qed

lemma mass_loop_all:
  "mass_loop ats [0..<length ats] 0 = Inr (\<Sum>x\<leftarrow>ats. atom_mass (fst x))"
proof -
  have "map (\<lambda>j. atom_mass (fst (ats ! j))) [0..<length ats] = map (\<lambda>x. atom_mass (fst x)) ats"
    by (rule nth_equalityI) simp_all
  then show ?thesis
    by (simp add: mass_loop_upt)
qed

lemma addAtom_recomputes:
  assumes "addAtom user uc a position = Inr (uc', printed)"
    and "numAtoms uc = length (atoms uc)"
  shows "\<exists>pos positionStr. atoms uc' = atoms uc @ [(a, pos, positionStr)]"
    and "numAtoms uc' = length (atoms uc')"
    and "density uc' = (\<Sum>x\<leftarrow>atoms uc'. atom_mass (fst x)) / volume uc'"
    and "mass uc' = (\<Sum>x\<leftarrow>atoms uc'. atom_mass (fst x)) * 1 * angstrom ^ 2 / area uc'"
    and "setitem0 (springConst uc) (mass uc' * (soundVel uc' / cAxis uc') ^ 2)
           = Inr (springConst uc')"
proof -
  from assms(1) obtain pos positionStr where
    r: "resolve_position user position = Inr (pos, positionStr, printed)"
    by (auto simp: addAtom_def split: sum.splits if_splits)
  let ?ats = "atoms uc @ [(a, pos, positionStr)]"
  have loop: "mass_loop ?ats [0..<numAtoms uc + 1] 0 = Inr (\<Sum>x\<leftarrow>?ats. atom_mass (fst x))"
    using mass_loop_all[of ?ats] assms(2) by simp
  let ?m = "\<Sum>x\<leftarrow>?ats. atom_mass (fst x)"
  let ?uc1 = "uc\<lparr>atoms := ?ats, numAtoms := numAtoms uc + 1, density := ?m / volume uc,
                 mass := ?m * 1 * angstrom ^ 2 / area uc\<rparr>"
  from assms(1) r loop have c: "calcSpringConst ?uc1 = Inr uc'"
    by (auto simp: addAtom_def split: sum.splits if_splits)
  then obtain arr where arr: "setitem0 (springConst uc) (mass ?uc1 * (soundVel uc / cAxis uc) ^ 2)
      = Inr arr" and uc': "uc' = ?uc1\<lparr>springConst := arr\<rparr>"
    by (auto simp: calcSpringConst_def split: sum.splits if_splits)
  show "\<exists>pos positionStr. atoms uc' = atoms uc @ [(a, pos, positionStr)]"
    by (simp add: uc')
  show "numAtoms uc' = length (atoms uc')"
    using assms(2) by (simp add: uc')
  show "density uc' = (\<Sum>x\<leftarrow>atoms uc'. atom_mass (fst x)) / volume uc'"
    by (simp add: uc')
  show "mass uc' = (\<Sum>x\<leftarrow>atoms uc'. atom_mass (fst x)) * 1 * angstrom ^ 2 / area uc'"
    by (simp add: uc')
  show "setitem0 (springConst uc) (mass uc' * (soundVel uc' / cAxis uc') ^ 2)
           = Inr (springConst uc')"
    using arr by (simp add: uc')
qed

text \<open>
  C4, as the claim states it: the position function stored for a number \<open>p\<close> should be
  \<open>strain \<mapsto> p * (strain + 1)\<close>. For \<open>p = 1/3\<close> the code stores the function of the text
  \<^verbatim>\<open>lambda strain: 3.333333e-01*(strain+1)\<close>, whose value at strain 0 is not \<open>1/3\<close>.
\<close>

theorem addAtom_position_not_exact:
  "(case init (\<lambda>s. Inl ''invalid syntax'') ''UC'' ''cell'' 1 no_kwargs of
      Inl e \<Rightarrow> False
    | Inr (uc, printed) \<Rightarrow>
        (case addAtom (\<lambda>s. Inl ''invalid syntax'') uc
                \<lparr>atom_ID = ''O'', atom_name = ''Oxygen'', atom_mass = 1\<rparr> (Num (1 / 3)) of
           Inl e \<Rightarrow> False
         | Inr (uc', printed') \<Rightarrow>
             atoms uc' =
               [(\<lparr>atom_ID = ''O'', atom_name = ''Oxygen'', atom_mass = 1\<rparr>,
                 PyLambda (\<lambda>strain. 3333333 / 10000000 * (strain + 1)),
                 ''lambda strain: 3.333333e-01*(strain+1)'')]))
   \<and> 3333333 / 10000000 * (0 + 1) \<noteq> 1 / 3 * (0 + 1 :: real)"
  by (simp add: object_simps resolve_position_third)

text \<open>
  C4, amended: calling \<^verbatim>\<open>addAtom\<close> with a number \<open>p\<close> as position stores the position
  function \<open>strain \<mapsto> q * (strain + 1)\<close>, where \<open>q\<close> is \<open>p\<close> rounded to seven significant
  digits, the number that \<^verbatim>\<open>{:e}\<close> prints; for \<open>p = 0.5\<close> that is \<open>0.5\<close>, so the stored
  function is 0.5 at strain 0 and 1.0 at strain 1.
\<close>

theorem addAtom_stores_rounded_position:
  assumes "addAtom user uc a (Num p) = Inr (uc', printed)"
  shows "atoms uc' = atoms uc @
           [(a, PyLambda (\<lambda>strain. value_e p * (strain + 1)),
             ''lambda strain: '' @ format_e p @ ''*(strain+1)'')]
         \<and> value_e (1 / 2) * (0 + 1) = 1 / 2 \<and> value_e (1 / 2) * (1 + 1) = 1"
proof -
  from assms obtain m where "calcSpringConst
      (uc\<lparr>atoms := atoms uc @ [(a, PyLambda (\<lambda>strain. value_e p * (strain + 1)),
                                 ''lambda strain: '' @ format_e p @ ''*(strain+1)'')],
          numAtoms := numAtoms uc + 1, density := m / volume uc,
          mass := m * 1 * angstrom ^ 2 / area uc\<rparr>) = Inr uc'"
    by (auto simp: addAtom_def resolve_position_number split: sum.splits if_splits)
  then have "atoms uc' = atoms uc @
      [(a, PyLambda (\<lambda>strain. value_e p * (strain + 1)),
        ''lambda strain: '' @ format_e p @ ''*(strain+1)'')]"
    by (auto simp: calcSpringConst_def split: sum.splits if_splits)
  then show ?thesis
    by (simp add: value_e_half)
qed

text \<open>
  The amended claim at the position 0.5, on the object the constructor returns without
  keywords.
\<close>

theorem addAtom_stores_rounded_position_witness:
  "\<exists>uc uc'. init (\<lambda>s. Inl ''invalid syntax'') ''UC'' ''cell'' 1 no_kwargs = Inr (uc, [])
     \<and> addAtom (\<lambda>s. Inl ''invalid syntax'') uc
         \<lparr>atom_ID = ''O'', atom_name = ''Oxygen'', atom_mass = 1\<rparr> (Num (1 / 2)) = Inr (uc', [])
     \<and> atoms uc' = atoms uc @
         [(\<lparr>atom_ID = ''O'', atom_name = ''Oxygen'', atom_mass = 1\<rparr>,
           PyLambda (\<lambda>strain. value_e (1 / 2) * (strain + 1)),
           ''lambda strain: '' @ format_e (1 / 2) @ ''*(strain+1)'')]
     \<and> value_e (1 / 2) * (0 + 1) = 1 / 2 \<and> value_e (1 / 2) * (1 + 1) = 1"
proof -
  let ?u = "\<lambda>s::string. (Inl ''invalid syntax'' :: string + pyval)"
  let ?a = "\<lparr>atom_ID = ''O'', atom_name = ''Oxygen'', atom_mass = 1\<rparr>"
  obtain uc where uc: "init ?u ''UC'' ''cell'' 1 no_kwargs = Inr (uc, [])"
    using init_default_returns by blast
  then obtain uc' where uc': "addAtom ?u uc ?a (Num (1 / 2)) = Inr (uc', [])"
    by (auto simp: object_simps resolve_position_half)
  from addAtom_stores_rounded_position[OF uc'] uc uc' show ?thesis
    by blast
qed

text \<open>
  C2. After \<^verbatim>\<open>addAtom\<close> the density should be the sum of the masses over the volume, the
  mass that sum times one square angstrom over the area, and \<^verbatim>\<open>springConst[0]\<close> that mass
  times the square of \<^verbatim>\<open>soundVel/cAxis\<close>. The first two hold (\<open>addAtom_recomputes\<close>). The
  array \<^verbatim>\<open>springConst\<close> is made by \<^verbatim>\<open>np.array([0])\<close>, an integer array, so the product is
  stored without its fraction: for a cell with \<^verbatim>\<open>cAxis\<close> 4 angstrom and \<^verbatim>\<open>soundVel\<close> 5000
  and one atom of mass \<open>1.6 \<times> 10\<^sup>-\<^sup>2\<^sup>5\<close> the product is \<open>25/16\<close> and \<^verbatim>\<open>springConst[0]\<close> is 1.
\<close>

theorem addAtom_springConst_loses_fraction:
  "(case init user ''UC'' ''cell'' (1 / 2500000000) (no_kwargs\<lparr>kw_soundVel := Some 5000\<rparr>) of
      Inl e \<Rightarrow> False
    | Inr (uc, printed) \<Rightarrow>
        (case addAtom user uc \<lparr>atom_ID = i, atom_name = n, atom_mass = 16 / 10 ^ 26\<rparr>
                (Num (1 / 2)) of
           Inl e \<Rightarrow> False
         | Inr (uc', printed') \<Rightarrow>
             density uc' = 2500 \<and> mass uc' = 1 / 10 ^ 26
             \<and> mass uc' * (soundVel uc' / cAxis uc') ^ 2 = 25 / 16
             \<and> springConst uc' = \<lparr>dtype = Int64, vals = [1]\<rparr>))"
  by (simp add: object_simps resolve_position_half)

section \<open>The \<^verbatim>\<open>soundVel\<close> setter\<close>

text \<open>
  An assignment that returns has changed the sound velocity and the array of spring
  constants and nothing else; the product has been stored into the first place of the
  array.
\<close>

lemma set_soundVel_frame:
  assumes "set_soundVel uc v = Inr uc'"
  shows "uc' = uc\<lparr>soundVel := v, springConst := springConst uc'\<rparr>"
    and "setitem0 (springConst uc) (mass uc * (v / cAxis uc) ^ 2) = Inr (springConst uc')"
  using assms
  by (auto simp: set_soundVel_def calcSpringConst_def split: sum.splits if_splits)

text \<open>
  C5. An assignment to \<^verbatim>\<open>soundVel\<close> should leave \<^verbatim>\<open>springConst[0]\<close> equal to the mass
  times the square of \<^verbatim>\<open>soundVel/cAxis\<close> and change nothing else. Nothing else changes
  (\<open>set_soundVel_frame\<close>), but the product is stored into the integer array without its
  fraction: on the cell above, assigning 6000 makes the product \<open>9/4\<close> and
  \<^verbatim>\<open>springConst[0]\<close> 2.
\<close>

theorem set_soundVel_springConst_loses_fraction:
  "(case init user ''UC'' ''cell'' (1 / 2500000000) (no_kwargs\<lparr>kw_soundVel := Some 5000\<rparr>) of
      Inl e \<Rightarrow> False
    | Inr (uc, printed) \<Rightarrow>
        (case addAtom user uc \<lparr>atom_ID = i, atom_name = n, atom_mass = 16 / 10 ^ 26\<rparr>
                (Num (1 / 2)) of
           Inl e \<Rightarrow> False
         | Inr (uc', printed') \<Rightarrow>
             (case set_soundVel uc' 6000 of
                Inl e \<Rightarrow> False
              | Inr uc'' \<Rightarrow>
                 mass uc'' * (soundVel uc'' / cAxis uc'') ^ 2 = 9 / 4
                 \<and> springConst uc'' = \<lparr>dtype = Int64, vals = [2]\<rparr>)))"
  by (simp add: object_simps resolve_position_half)

section \<open>The cached integral of the heat capacity\<close>

text \<open>
  C6. Reading \<^verbatim>\<open>intHeatCapacity\<close> twice in a row returns the same list object both times:
  the second read returns the reference of the first, changes neither the object nor the
  store, prints nothing and calls no integration. After the first read the attribute
  exists, whatever the integration did.
\<close>

theorem get_intHeatCapacity_cached:
  "(case get_intHeatCapacity sympy st of
      (r1, st1, events1) \<Rightarrow>
        (case get_intHeatCapacity sympy st1 of
           (r2, st2, events2) \<Rightarrow>
             r2 = r1 \<and> st2 = st1 \<and> events2 = []
             \<and> intHeatCapacity_attr (fst st1) = Some r1))"
proof (cases "intHeatCapacity_attr (fst st)")
  case (Some r)
  then show ?thesis
    by (simp add: get_intHeatCapacity_def)
next
  case None
  obtain h strs events where loop:
    "integrate_loop sympy (heatCapacityStr (fst st)) (fst (alloc (snd st) []))
       (snd (alloc (snd st) []), [], []) = (h, strs, events)"
    by (cases "integrate_loop sympy (heatCapacityStr (fst st)) (fst (alloc (snd st) []))
       (snd (alloc (snd st) []), [], [])") blast
  from None loop show ?thesis
    by (simp add: get_intHeatCapacity_def)
qed

section \<open>The acoustic impedance\<close>

text \<open>
  C8. For a cell whose \<^verbatim>\<open>springConst[0]\<close> and mass are not negative and whose area is
  positive, \<^verbatim>\<open>getAcousticImpedance\<close> returns the root of \<^verbatim>\<open>springConst[0]\<close> times the
  mass, divided by the area.
\<close>

theorem getAcousticImpedance_value:
  assumes "vals (springConst uc) = k # higher"
    and "0 \<le> k" and "0 \<le> mass uc" and "0 < area uc"
  shows "getAcousticImpedance uc = Inr (Some (sqrt (k * mass uc) / area uc))"
proof -
  have "0 \<le> k * mass uc / (area uc)\<^sup>2"
    using assms by simp
  moreover have "sqrt (k * mass uc / (area uc)\<^sup>2) = sqrt (k * mass uc) / area uc"
    using assms(4) by (simp add: real_sqrt_divide)
  ultimately show ?thesis
    using assms(1,4) by (simp add: getAcousticImpedance_def)
qed

text \<open>The claim at \<^verbatim>\<open>springConst[0]\<close> 4, mass 1 and area 2.\<close>

theorem getAcousticImpedance_value_witness:
  "vals (springConst ((init_fields ''UC'' ''cell'' 1 no_kwargs)
          \<lparr>mass := 1, springConst := \<lparr>dtype = Float64, vals = [4]\<rparr>, area := 2\<rparr>)) = [4]
   \<and> (0::real) \<le> 4 \<and> (0::real) \<le> 1 \<and> (0::real) < 2
   \<and> getAcousticImpedance ((init_fields ''UC'' ''cell'' 1 no_kwargs)
          \<lparr>mass := 1, springConst := \<lparr>dtype = Float64, vals = [4]\<rparr>, area := 2\<rparr>)
       = Inr (Some (sqrt (4 * 1) / 2))"
  using getAcousticImpedance_value[of "(init_fields ''UC'' ''cell'' 1 no_kwargs)
          \<lparr>mass := 1, springConst := \<lparr>dtype = Float64, vals = [4]\<rparr>, area := 2\<rparr>" 4 "[]"]
  by simp

section \<open>The properties of a type\<close>

text \<open>
  C9. For every unit cell, \<^verbatim>\<open>getPropertyStruct(types='optical')\<close> returns a dictionary
  whose keys are exactly \<^verbatim>\<open>cAxis\<close>, \<^verbatim>\<open>optPenDepth\<close>, \<^verbatim>\<open>optRefIndex\<close> and
  \<^verbatim>\<open>optRefIndexPerStrain\<close>, each with the value of the attribute.
\<close>

theorem getPropertyStruct_optical:
  "\<exists>S. getPropertyStruct uc (Some ''optical'') = Inr S
       \<and> dom S = {''cAxis'', ''optPenDepth'', ''optRefIndex'', ''optRefIndexPerStrain''}
       \<and> S ''cAxis'' = Some (ANum (cAxis uc))
       \<and> S ''optPenDepth'' = Some (ANum (optPenDepth uc))
       \<and> S ''optRefIndex'' = Some (AOptical (optRefIndex uc))
       \<and> S ''optRefIndexPerStrain'' = Some (AOptical (optRefIndexPerStrain uc))"
  by (simp add: getPropertyStruct_def propertiesByTypes_def vars_self_def optional_attr_def
      dom_map_of_conv_image_fst split: option.splits)

end
